theory Spec2Isabelle
  imports Main
begin

section \<open>JavaScript values and array primitives used by the sources\<close>

text \<open>
  A JavaScript number as the sources meet it: the result of \<open>parseInt\<close> is an integer or
  \<open>NaN\<close>. A parameter that may be \<open>null\<close> is a \<open>number option\<close>, \<open>None\<close> standing
  for \<open>null\<close>. Integers are exact here; the precision loss of doubles beyond \<open>2^53\<close> is
  not modelled.
\<close>

datatype number = NaN | Num int

definition is_ws :: "char \<Rightarrow> bool" where
  "is_ws c = ((of_char c :: nat) \<in> {9, 10, 11, 12, 13, 32})"

definition is_digit :: "char \<Rightarrow> bool" where
  "is_digit c = (48 \<le> (of_char c :: nat) \<and> (of_char c :: nat) \<le> 57)"

definition digit_value :: "char \<Rightarrow> int" where
  "digit_value c = int (of_char c) - 48"

definition decimal :: "string \<Rightarrow> int" where
  "decimal ds = foldl (\<lambda>a c. 10 * a + digit_value c) 0 ds"

text \<open>
  \<open>parseInt(s, 10)\<close>: leading white space is skipped, one sign is accepted, the longest
  prefix of decimal digits is read, and no digit at all gives \<open>NaN\<close>. A missing argument
  is \<open>undefined\<close>, whose string form has no digit: \<open>NaN\<close> again. Strings are byte
  strings here, so the white space is the ASCII one (tab, line feed, vertical tab, form
  feed, carriage return, space).
\<close>

definition parseInt_string :: "string \<Rightarrow> number" where
  "parseInt_string s =
     (let t = dropWhile is_ws s;
          neg = (case t of [] \<Rightarrow> False | c # _ \<Rightarrow> c = CHR ''-'');
          u = (case t of [] \<Rightarrow> [] | c # r \<Rightarrow> if c = CHR ''-'' \<or> c = CHR ''+'' then r else t);
          ds = takeWhile is_digit u
      in if ds = [] then NaN else Num (if neg then - decimal ds else decimal ds))"

definition parseInt :: "string option \<Rightarrow> number" where
  "parseInt a = (case a of None \<Rightarrow> NaN | Some s \<Rightarrow> parseInt_string s)"

text \<open>The n-th actual argument of a call spread from an array; \<open>None\<close> is \<open>undefined\<close>.\<close>

definition argument :: "string list \<Rightarrow> nat \<Rightarrow> string option" where
  "argument ps n = (if n < length ps then Some (ps ! n) else None)"

text \<open>\<open>Array.prototype.indexOf\<close>: the first index holding the element, or \<open>-1\<close>.\<close>

fun indexOf :: "'a list \<Rightarrow> 'a \<Rightarrow> int" where
  "indexOf [] x = - 1"
| "indexOf (y # ys) x =
     (if y = x then 0 else (let i = indexOf ys x in if i < 0 then - 1 else i + 1))"

text \<open>
  \<open>Array.prototype.splice(start, deleteCount)\<close>, the array that remains: a negative
  \<open>start\<close> counts from the end (clamped at 0), a \<open>start\<close> beyond the end is the length.
\<close>

definition splice :: "'a list \<Rightarrow> int \<Rightarrow> nat \<Rightarrow> 'a list" where
  "splice xs start deleteCount =
     (let len = int (length xs);
          s = nat (if start < 0 then max (len + start) 0 else min start len);
          n = min deleteCount (length xs - s)
      in take s xs @ drop (s + n) xs)"

section \<open>The runtime's timers\<close>

text \<open>
  A \<open>Timeout\<close> is the handle returned by \<open>setInterval\<close> and \<open>setTimeout\<close>. The runtime
  keeps the table of live timers: the delay in milliseconds, whether the timer repeats,
  and the callback, named by a tag. The closures of \<open>startHeartbeat\<close> capture the handle
  of the heartbeat interval (and, in the earlier revision, the deadline's own handle).
\<close>

type_synonym Timeout = nat

datatype timer_kind = Interval | Once

datatype timer_callback =
    ToggleLED
  | HeartbeatTick Timeout
  | HeartbeatDeadline Timeout
  | HeartbeatTick_p0 Timeout
  | HeartbeatDeadline_p0 Timeout Timeout

record timer =
  kind :: timer_kind
  delay :: nat
  callback :: timer_callback

section \<open>The Firmata board object\<close>

datatype pin_mode = INPUT | OUTPUT | ANALOG | PWM | SERVO | SHIFT | I2C | ONEWIRE
  | STEPPER | SERIAL | PULLUP | IGNORE | UNKNOWN

record Pins =
  supportedModes :: "pin_mode list"
  analogChannel :: nat
  pin_value :: number

record IPin = Pins +
  pinNumber :: nat
  analog :: bool

record IBoard =
  d_id :: string
  d_name :: string
  d_vendorId :: string
  d_productId :: string
  d_type :: string
  d_currentProgram :: string
  d_online :: bool
  d_commands :: "string list"
  d_pins :: "IPin list option"

datatype event_key = Digital_read nat | Analog_read nat | Queryfirmware

datatype listener =
    L_emitUpdate
  | L_resetHeartbeatTimeout
  | L_compareAnalogReadout_p0 nat
  | L_clearTimeout_p0 Timeout

datatype serial_port = SW_SERIAL0

datatype payload_item = PStr string | PNum number

text \<open>
  The calls the sources make into the Firmata library, in the order they are made. The
  library itself is outside the sources: a call is recorded, not interpreted.
\<close>

datatype firmata_call =
    SetSamplingInterval nat
  | DigitalRead nat
  | AnalogRead nat
  | QueryFirmware
  | AnalogWrite number number
  | DigitalWrite number number
  | SerialWriteBytes serial_port "payload_item list"
  | Emit_update IBoard
  | Emit_update_p0
  | Emit_disconnect

record listener_entry =
  on_event :: event_key
  handler :: listener
  once :: bool

record FirmataBoard =
  pins :: "Pins list"
  analogPins :: "nat list"
  listeners :: "listener_entry list"
  calls :: "firmata_call list"

section \<open>The Board class (src/domain/board.ts)\<close>

datatype log_entry =
    Debug_executing string
  | Debug_heartbeat_timeout
  | Warn_heartbeat_timeout
  | Warn_blink_already_enabled
  | Warn_digital_value number number

datatype error =
    CommandUnavailable string string
  | CommandMalformed string
  | Error string
  | TypeError

datatype action = BLINKON | BLINKOFF | TOGGLELED | SETPINVALUE
  | RAINBOW | KITT | PULSECOLOR | SETCOLOR

record IPinout =
  LED :: nat
  RX :: nat
  TX :: nat

record Board =
  board_id :: string
  board_name :: string
  board_type :: string
  online :: bool
  vendorId :: string
  productId :: string
  currentProgram :: string
  logged :: "log_entry list"
  availableActions :: "(string \<times> action) list"
  firmataBoard :: "FirmataBoard option"
  intervals :: "Timeout list"
  timeouts :: "Timeout list"
  pinout :: IPinout
  blinkInterval :: "Timeout option"
  heartbeatTimeout :: "Timeout option"
  previousAnalogValue :: "nat \<Rightarrow> int option"
  rt_timers :: "(Timeout \<times> timer) list"
  rt_next :: Timeout

text \<open>
  \<open>rt_timers\<close> and \<open>rt_next\<close> are the runtime's timer table and its next fresh handle,
  carried in the same state so that a method and the timers it sets are one value.
  A method returns \<open>Done\<close> with the new state, or \<open>Raised\<close> with the exception thrown
  and the state reached when it was thrown.
\<close>

datatype outcome = Done Board | Raised error Board

text \<open>
  \<open>FirmataBoard.PIN_STATE.HIGH\<close> and \<open>LOW\<close> are constants of the library, 1 and 0, as
  the warning of \<open>setPinValue\<close> says.
\<close>

definition IDLE :: string where
  "IDLE = ''idle''"

definition HIGH :: int where
  "HIGH = 1"

definition LOW :: int where
  "LOW = 0"

definition heartbeatInterval :: nat where
  "heartbeatInterval = 5000"

subsection \<open>Global timer functions\<close>

definition setTimer :: "timer_kind \<Rightarrow> (Timeout \<Rightarrow> timer_callback) \<Rightarrow> nat \<Rightarrow> Board \<Rightarrow> Timeout \<times> Board" where
  "setTimer k cb ms b =
     (rt_next b,
      b\<lparr>rt_timers := rt_timers b @ [(rt_next b, \<lparr>kind = k, delay = ms, callback = cb (rt_next b)\<rparr>)],
        rt_next := Suc (rt_next b)\<rparr>)"

definition setInterval :: "(Timeout \<Rightarrow> timer_callback) \<Rightarrow> nat \<Rightarrow> Board \<Rightarrow> Timeout \<times> Board" where
  "setInterval cb ms b = setTimer Interval cb ms b"

definition setTimeout :: "(Timeout \<Rightarrow> timer_callback) \<Rightarrow> nat \<Rightarrow> Board \<Rightarrow> Timeout \<times> Board" where
  "setTimeout cb ms b = setTimer Once cb ms b"

text \<open>
  The global \<open>clearInterval\<close> and \<open>clearTimeout\<close>: the timer leaves the table; a handle
  that is \<open>undefined\<close>, \<open>null\<close> or no longer live changes nothing.
\<close>

definition global_clear :: "Timeout option \<Rightarrow> Board \<Rightarrow> Board" where
  "global_clear t b =
     (case t of None \<Rightarrow> b
      | Some h \<Rightarrow> b\<lparr>rt_timers := filter (\<lambda>e. fst e \<noteq> h) (rt_timers b)\<rparr>)"

definition live :: "Board \<Rightarrow> Timeout \<Rightarrow> bool" where
  "live b h = (h \<in> fst ` set (rt_timers b))"

subsection \<open>clearInterval and clearTimeout of the class\<close>

definition clearInterval :: "Timeout option \<Rightarrow> Board \<Rightarrow> Board" where
  "clearInterval interval b =
     global_clear interval
       (b\<lparr>intervals := splice (intervals b) (indexOf (map Some (intervals b)) interval) 1\<rparr>)"

definition clearTimeout :: "Timeout option \<Rightarrow> Board \<Rightarrow> Board" where
  "clearTimeout timeout b =
     global_clear timeout
       (b\<lparr>timeouts := splice (timeouts b) (indexOf (map Some (timeouts b)) timeout) 1\<rparr>)"

subsection \<open>Logging and calls into the library\<close>

definition log_entry :: "log_entry \<Rightarrow> Board \<Rightarrow> Board" where
  "log_entry e b = b\<lparr>logged := logged b @ [e]\<rparr>"

definition firmata_call :: "firmata_call \<Rightarrow> FirmataBoard \<Rightarrow> FirmataBoard" where
  "firmata_call c fb = fb\<lparr>calls := calls fb @ [c]\<rparr>"

definition addListener :: "event_key \<Rightarrow> listener \<Rightarrow> bool \<Rightarrow> FirmataBoard \<Rightarrow> FirmataBoard" where
  "addListener k l o1 fb =
     fb\<lparr>listeners := listeners fb @ [\<lparr>on_event = k, handler = l, once = o1\<rparr>]\<rparr>"

fun remove_first :: "('a \<Rightarrow> bool) \<Rightarrow> 'a list \<Rightarrow> 'a list" where
  "remove_first P [] = []"
| "remove_first P (x # xs) = (if P x then xs else x # remove_first P xs)"

text \<open>
  \<open>removeListener(event, f)\<close> takes away the most recently added registration of \<open>f\<close> for
  the event, if there is one; \<open>removeAllListeners()\<close> takes away every registration.
\<close>

definition removeListener :: "event_key \<Rightarrow> listener \<Rightarrow> FirmataBoard \<Rightarrow> FirmataBoard" where
  "removeListener k l fb =
     fb\<lparr>listeners := rev (remove_first (\<lambda>e. on_event e = k \<and> handler e = l) (rev (listeners fb)))\<rparr>"

definition removeAllListeners :: "FirmataBoard \<Rightarrow> FirmataBoard" where
  "removeAllListeners fb = fb\<lparr>listeners := []\<rparr>"

text \<open>\<open>digitalRead\<close>, \<open>analogRead\<close> and \<open>queryFirmware\<close> of the library: the request and the
  registration of the callback (once only for \<open>queryFirmware\<close>).\<close>

definition digitalRead :: "nat \<Rightarrow> listener \<Rightarrow> FirmataBoard \<Rightarrow> FirmataBoard" where
  "digitalRead i l fb = addListener (Digital_read i) l False (firmata_call (DigitalRead i) fb)"

definition analogRead :: "nat \<Rightarrow> listener \<Rightarrow> FirmataBoard \<Rightarrow> FirmataBoard" where
  "analogRead i l fb = addListener (Analog_read i) l False (firmata_call (AnalogRead i) fb)"

definition queryFirmware :: "listener \<Rightarrow> FirmataBoard \<Rightarrow> FirmataBoard" where
  "queryFirmware l fb = addListener Queryfirmware l True (firmata_call QueryFirmware fb)"

text \<open>\<open>pins[i]\<close> for a number \<open>i\<close>: \<open>None\<close> is \<open>undefined\<close>.\<close>

definition pin_at :: "FirmataBoard \<Rightarrow> number \<Rightarrow> Pins option" where
  "pin_at fb n =
     (case n of NaN \<Rightarrow> None
      | Num i \<Rightarrow> if 0 \<le> i \<and> i < int (length (pins fb)) then Some (pins fb ! nat i) else None)"

subsection \<open>Snapshot\<close>

definition getAvailableActions :: "Board \<Rightarrow> string list" where
  "getAvailableActions b = map fst (availableActions b)"

definition toIPin :: "nat \<Rightarrow> Pins \<Rightarrow> IPin" where
  "toIPin index pin =
     \<lparr>supportedModes = supportedModes pin, analogChannel = analogChannel pin,
      pin_value = pin_value pin, pinNumber = index, analog = (analogChannel pin \<noteq> 127)\<rparr>"

definition discretePins :: "Pins list \<Rightarrow> IPin list" where
  "discretePins ps =
     filter (\<lambda>pin. length (supportedModes pin) > 0)
       (map (\<lambda>(index, pin). toIPin index pin) (enumerate 0 ps))"

definition toDiscrete :: "Board \<Rightarrow> IBoard" where
  "toDiscrete board =
     \<lparr>d_id = board_id board, d_name = board_name board, d_vendorId = vendorId board,
      d_productId = productId board, d_type = board_type board,
      d_currentProgram = currentProgram board, d_online = online board,
      d_commands = getAvailableActions board,
      d_pins = (case firmataBoard board of None \<Rightarrow> None
                | Some fb \<Rightarrow> Some (discretePins (pins fb)))\<rparr>"

subsection \<open>Pin predicates, emitUpdate, setPinValue\<close>

text \<open>\<open>None\<close>: the TypeError of reading a property of \<open>undefined\<close>.\<close>

definition isDigitalPin :: "Board \<Rightarrow> number \<Rightarrow> bool option" where
  "isDigitalPin b pinIndex =
     (case firmataBoard b of None \<Rightarrow> None
      | Some fb \<Rightarrow>
         (case pin_at fb pinIndex of None \<Rightarrow> None
          | Some pin \<Rightarrow> Some (analogChannel pin = 127 \<and> length (supportedModes pin) > 0
                               \<and> \<not> ANALOG \<in> set (supportedModes pin))))"

definition isAnalogPin :: "Board \<Rightarrow> number \<Rightarrow> bool option" where
  "isAnalogPin b pinIndex =
     (case firmataBoard b of None \<Rightarrow> None
      | Some fb \<Rightarrow>
         (case pin_at fb pinIndex of None \<Rightarrow> None
          | Some pin \<Rightarrow> Some (ANALOG \<in> set (supportedModes pin))))"

definition emitUpdate :: "Board \<Rightarrow> outcome" where
  "emitUpdate b =
     (case firmataBoard b of None \<Rightarrow> Raised TypeError b
      | Some fb \<Rightarrow> Done (b\<lparr>firmataBoard := Some (firmata_call (Emit_update (toDiscrete b)) fb)\<rparr>))"

definition with_firmata :: "(FirmataBoard \<Rightarrow> FirmataBoard) \<Rightarrow> Board \<Rightarrow> Board" where
  "with_firmata f b = b\<lparr>firmataBoard := map_option f (firmataBoard b)\<rparr>"

definition setPinValue :: "number option \<Rightarrow> number option \<Rightarrow> Board \<Rightarrow> outcome" where
  "setPinValue pin val b =
     (case pin of
        None \<Rightarrow> Raised (CommandMalformed ''Method setPinValue requires 'pin' argument.'') b
      | Some p \<Rightarrow>
     (case val of
        None \<Rightarrow> Raised (CommandMalformed ''Method setPinValue requires 'value' argument.'') b
      | Some v \<Rightarrow>
     (case isAnalogPin b p of
        None \<Rightarrow> Raised TypeError b
      | Some True \<Rightarrow> emitUpdate (with_firmata (firmata_call (AnalogWrite p v)) b)
      | Some False \<Rightarrow>
         (case isDigitalPin b p of
            None \<Rightarrow> Raised TypeError b
          | Some True \<Rightarrow>
              if v \<noteq> Num HIGH \<and> v \<noteq> Num LOW
              then emitUpdate (log_entry (Warn_digital_value v p) b)
              else emitUpdate (with_firmata (firmata_call (DigitalWrite p v)) b)
          | Some False \<Rightarrow> emitUpdate b))))"

definition toggleLED :: "Board \<Rightarrow> outcome" where
  "toggleLED b =
     (case firmataBoard b of None \<Rightarrow> Raised TypeError b
      | Some fb \<Rightarrow>
         (case pin_at fb (Num (int (LED (pinout b)))) of None \<Rightarrow> Raised TypeError b
          | Some pin \<Rightarrow>
              setPinValue (Some (Num (int (LED (pinout b)))))
                (Some (Num (if pin_value pin = Num HIGH then LOW else HIGH))) b))"

subsection \<open>Blinking\<close>

definition setIdle :: "Board \<Rightarrow> Board" where
  "setIdle b = b\<lparr>currentProgram := IDLE\<rparr>"

definition enableBlinkLed :: "bool \<Rightarrow> Board \<Rightarrow> Board" where
  "enableBlinkLed enable b =
     (if enable then
        (if blinkInterval b \<noteq> None then log_entry Warn_blink_already_enabled b
         else (let (h, b1) = setInterval (\<lambda>_. ToggleLED) 500 b;
                   b2 = b1\<lparr>blinkInterval := Some h\<rparr>
               in b2\<lparr>intervals := intervals b2 @ [h]\<rparr>))
      else (let b1 = setIdle b;
                b2 = clearInterval (blinkInterval b1) b1
            in b2\<lparr>blinkInterval := None\<rparr>))"

subsection \<open>Heartbeat\<close>

definition resetHeartbeatTimeout :: "Board \<Rightarrow> Board" where
  "resetHeartbeatTimeout b = (clearTimeout (heartbeatTimeout b) b)\<lparr>heartbeatTimeout := None\<rparr>"

text \<open>The body of the deadline set by the heartbeat; \<open>heartbeat\<close> is the interval's handle.\<close>

definition heartbeat_deadline :: "Timeout \<Rightarrow> Board \<Rightarrow> outcome" where
  "heartbeat_deadline heartbeat b =
     (let b1 = log_entry Debug_heartbeat_timeout b
      in case firmataBoard b1 of None \<Rightarrow> Raised TypeError b1
         | Some fb \<Rightarrow>
             Done (resetHeartbeatTimeout
                    (clearInterval (Some heartbeat)
                      (b1\<lparr>firmataBoard := Some (firmata_call Emit_disconnect fb)\<rparr>))))"

text \<open>The body of the heartbeat interval.\<close>

definition heartbeat_tick :: "Timeout \<Rightarrow> Board \<Rightarrow> outcome" where
  "heartbeat_tick heartbeat b =
     (let (t, b1) = setTimeout (\<lambda>_. HeartbeatDeadline heartbeat) 3000 b;
          b2 = b1\<lparr>heartbeatTimeout := Some t\<rparr>;
          b3 = b2\<lparr>timeouts := timeouts b2 @ [t]\<rparr>
      in case firmataBoard b3 of None \<Rightarrow> Raised TypeError b3
         | Some fb \<Rightarrow> Done (b3\<lparr>firmataBoard := Some (queryFirmware L_resetHeartbeatTimeout fb)\<rparr>))"

definition startHeartbeat :: "Board \<Rightarrow> Board" where
  "startHeartbeat b =
     (let (heartbeat, b1) = setInterval HeartbeatTick heartbeatInterval b
      in b1\<lparr>intervals := intervals b1 @ [heartbeat]\<rparr>)"

subsection \<open>Pin listeners\<close>

text \<open>
  The two attach methods are private and called by the constructor only, inside its test
  that a Firmata board was given.
\<close>

definition attachDigitalPinListeners :: "Board \<Rightarrow> Board" where
  "attachDigitalPinListeners b =
     with_firmata
       (\<lambda>fb. fold (\<lambda>index fb1. if isDigitalPin b (Num (int index)) = Some True
                                then digitalRead index L_emitUpdate fb1 else fb1)
                  [0..<length (pins fb)] fb) b"

definition attachAnalogPinListeners :: "Board \<Rightarrow> Board" where
  "attachAnalogPinListeners b =
     with_firmata
       (\<lambda>fb. fold (\<lambda>index fb1. analogRead index L_emitUpdate fb1)
                  [0..<length (analogPins fb)] fb) b"

definition compareAnalogReadout :: "nat \<Rightarrow> int \<Rightarrow> Board \<Rightarrow> outcome" where
  "compareAnalogReadout pinIndex val b =
     (if previousAnalogValue b pinIndex \<noteq> Some val
      then emitUpdate (b\<lparr>previousAnalogValue := (previousAnalogValue b)(pinIndex := Some val)\<rparr>)
      else Done b)"

subsection \<open>Releasing timers and listeners\<close>

definition clearAllIntervals :: "Board \<Rightarrow> Board" where
  "clearAllIntervals b =
     (fold (\<lambda>interval. global_clear (Some interval)) (intervals b) b)\<lparr>intervals := []\<rparr>"

definition clearAllTimeouts :: "Board \<Rightarrow> Board" where
  "clearAllTimeouts b =
     (fold (\<lambda>timeout. global_clear (Some timeout)) (timeouts b) b)\<lparr>timeouts := []\<rparr>"

definition clearListeners :: "Board \<Rightarrow> outcome" where
  "clearListeners b =
     (case firmataBoard b of None \<Rightarrow> Raised TypeError b
      | Some fb \<Rightarrow>
         (let fb1 = fold (\<lambda>index fb'. if isDigitalPin b (Num (int index)) = Some True
                                       then removeListener (Digital_read index) L_emitUpdate fb'
                                       else fb')
                         [0..<length (pins fb)] fb;
              fb2 = fold (\<lambda>index fb'. removeListener (Analog_read index) L_emitUpdate fb')
                         [0..<length (analogPins fb)] fb1;
              fb3 = removeListener Queryfirmware L_resetHeartbeatTimeout fb2
          in Done (b\<lparr>firmataBoard := Some fb3\<rparr>)))"

definition clearAllTimers :: "Board \<Rightarrow> outcome" where
  "clearAllTimers b = clearListeners (clearAllTimeouts (clearAllIntervals b))"

definition disconnect :: "Board \<Rightarrow> outcome" where
  "disconnect b =
     (case clearAllTimers b of Raised e b1 \<Rightarrow> Raised e b1
      | Done b1 \<Rightarrow>
         (let b2 = b1\<lparr>online := False\<rparr>
          in case firmataBoard b2 of None \<Rightarrow> Raised TypeError b2
             | Some fb \<Rightarrow> Done (b2\<lparr>firmataBoard := Some (removeAllListeners fb)\<rparr>)))"

subsection \<open>Constructor\<close>

definition defaultActions :: "(string \<times> action) list" where
  "defaultActions =
     [(''BLINKON'', BLINKON), (''BLINKOFF'', BLINKOFF), (''TOGGLELED'', TOGGLELED),
      (''SETPINVALUE'', SETPINVALUE)]"

text \<open>
  The field initialisers. \<open>name\<close> and \<open>type\<close> come from the persisted model; identifiers
  that the class leaves \<open>undefined\<close> are the empty string. A new board starts with an empty
  timer table.
\<close>

definition initial_Board :: "string \<Rightarrow> string \<Rightarrow> string \<Rightarrow> Board" where
  "initial_Board ident nm ty =
     \<lparr>board_id = ident, board_name = nm, board_type = ty, online = False,
      vendorId = [], productId = [], currentProgram = IDLE, logged = [],
      availableActions = defaultActions, firmataBoard = None, intervals = [], timeouts = [],
      pinout = \<lparr>LED = 2, RX = 13, TX = 15\<rparr>, blinkInterval = None, heartbeatTimeout = None,
      previousAnalogValue = (\<lambda>_. None), rt_timers = [], rt_next = 0\<rparr>"

definition new_Board :: "string \<Rightarrow> string \<Rightarrow> FirmataBoard option \<Rightarrow> string \<Rightarrow> Board" where
  "new_Board nm ty fbo ident =
     (let b = initial_Board ident nm ty
      in case fbo of None \<Rightarrow> b
         | Some fb \<Rightarrow>
             startHeartbeat
               (attachDigitalPinListeners
                 (attachAnalogPinListeners
                   (b\<lparr>online := True,
                      firmataBoard := Some (firmata_call (SetSamplingInterval 1000) fb)\<rparr>))))"

section \<open>The LedController class\<close>

definition PAYLOAD_HEADER :: string where
  "PAYLOAD_HEADER = ''[''"

definition PAYLOAD_FOOTER :: string where
  "PAYLOAD_FOOTER = '']''"

definition LED_SETCOLOR :: string where
  "LED_SETCOLOR = ''C''"

definition LED_PULSECOLOR :: string where
  "LED_PULSECOLOR = ''P''"

definition LED_RAINBOW :: string where
  "LED_RAINBOW = ''R''"

definition LED_KITT :: string where
  "LED_KITT = ''K''"

definition buildPayload :: "string \<Rightarrow> number list \<Rightarrow> payload_item list" where
  "buildPayload command parameters =
     [PStr PAYLOAD_HEADER, PStr command] @ map PNum parameters @ [PStr PAYLOAD_FOOTER]"

text \<open>
  Modelled from the spec: \<open>Board.is8BitNumber\<close> belongs to a revision of the Board class
  that is not among the sources. The specification asks of the parameters of the LED
  controller's actions that each fit in 8 bits, an integer in \<open>[0,255]\<close>; the message
  thrown by its callers below says the same.
\<close>

definition is8BitNumber :: "number \<Rightarrow> bool" where
  "is8BitNumber n = (case n of NaN \<Rightarrow> False | Num i \<Rightarrow> 0 \<le> i \<and> i \<le> 255)"

definition parametersAreValid :: "number list \<Rightarrow> bool" where
  "parametersAreValid args = (\<not> False \<in> set (map is8BitNumber args))"

text \<open>
  Modelled from the spec: \<open>serialWriteBytes\<close> belongs to the same absent revision. The
  specification has the payload written through the Firmata serial passthrough: the call
  is recorded with its port and payload.
\<close>

definition serialWriteBytes :: "serial_port \<Rightarrow> payload_item list \<Rightarrow> Board \<Rightarrow> outcome" where
  "serialWriteBytes port payload b =
     (case firmataBoard b of None \<Rightarrow> Raised TypeError b
      | Some fb \<Rightarrow> Done (b\<lparr>firmataBoard := Some (firmata_call (SerialWriteBytes port payload) fb)\<rparr>))"

definition invalid_parameters :: error where
  "invalid_parameters = Error ''Parameters should be 8 bit numbers (0-255).''"

definition pulseColor :: "number \<Rightarrow> number \<Rightarrow> Board \<Rightarrow> outcome" where
  "pulseColor hue saturation b =
     (if \<not> parametersAreValid [hue, saturation] then Raised invalid_parameters b
      else serialWriteBytes SW_SERIAL0 (buildPayload LED_PULSECOLOR [hue, saturation]) b)"

definition setColor :: "number \<Rightarrow> number \<Rightarrow> number \<Rightarrow> Board \<Rightarrow> outcome" where
  "setColor hue saturation val b =
     (if \<not> parametersAreValid [hue, saturation, val] then Raised invalid_parameters b
      else serialWriteBytes SW_SERIAL0 (buildPayload LED_SETCOLOR [hue, saturation, val]) b)"

definition rainbow :: "Board \<Rightarrow> outcome" where
  "rainbow b = serialWriteBytes SW_SERIAL0 (buildPayload LED_RAINBOW []) b"

definition kitt :: "number \<Rightarrow> number \<Rightarrow> number \<Rightarrow> Board \<Rightarrow> outcome" where
  "kitt hue saturation val b =
     (if \<not> parametersAreValid [hue, saturation, val] then Raised invalid_parameters b
      else serialWriteBytes SW_SERIAL0 (buildPayload LED_KITT [hue, saturation, val]) b)"

text \<open>The table set by the constructor: name, \<open>requiresParams\<close>, \<open>method\<close>.\<close>

definition ledControllerActions :: "(string \<times> bool \<times> action) list" where
  "ledControllerActions =
     [(''RAINBOW'', False, RAINBOW), (''KITT'', True, KITT), (''PULSECOLOR'', True, PULSECOLOR),
      (''SETCOLOR'', True, SETCOLOR)]"

section \<open>Action dispatch\<close>

text \<open>The functions stored in the action tables, applied to the spread parameters.\<close>

definition run_action :: "action \<Rightarrow> string list \<Rightarrow> Board \<Rightarrow> outcome" where
  "run_action a ps b =
     (case a of
        BLINKON \<Rightarrow> Done (enableBlinkLed True b)
      | BLINKOFF \<Rightarrow> Done (enableBlinkLed False b)
      | TOGGLELED \<Rightarrow> toggleLED b
      | SETPINVALUE \<Rightarrow>
          setPinValue (Some (parseInt (argument ps 0))) (Some (parseInt (argument ps 1))) b
      | RAINBOW \<Rightarrow> rainbow b
      | KITT \<Rightarrow>
          kitt (parseInt (argument ps 0)) (parseInt (argument ps 1)) (parseInt (argument ps 2)) b
      | PULSECOLOR \<Rightarrow> pulseColor (parseInt (argument ps 0)) (parseInt (argument ps 1)) b
      | SETCOLOR \<Rightarrow>
          setColor (parseInt (argument ps 0)) (parseInt (argument ps 1))
            (parseInt (argument ps 2)) b)"

definition isAvailableAction :: "Board \<Rightarrow> string \<Rightarrow> bool" where
  "isAvailableAction b a = (indexOf (getAvailableActions b) a \<ge> 0)"

text \<open>
  \<open>executeAction\<close> of board.ts. The optional parameter array is spread when it is given
  and not empty; otherwise the function is called with no argument.
\<close>

definition executeAction :: "string \<Rightarrow> string list option \<Rightarrow> Board \<Rightarrow> outcome" where
  "executeAction a parameters b =
     (if \<not> isAvailableAction b a then Raised (CommandUnavailable a (board_id b)) b
      else
        (let b1 = log_entry (Debug_executing a) b
         in case map_of (availableActions b1) a of
              None \<Rightarrow> Raised TypeError b1
            | Some f \<Rightarrow>
                (case run_action f (case parameters of None \<Rightarrow> [] | Some ps \<Rightarrow> ps) b1 of
                   Raised e b2 \<Rightarrow> Raised e b2
                 | Done b2 \<Rightarrow> emitUpdate b2)))"

section \<open>The earlier revision of the Board class\<close>

text \<open>
  A second file of the sources holds an earlier revision of the class. Where it differs in
  what follows, its methods are given here under the suffix \<open>_p0\<close>: the heartbeat
  constants, the deadline kept in a local constant instead of a field, the \<open>update\<close> event
  emitted without a snapshot, and the analog listener, which goes through
  \<open>compareAnalogReadout\<close>. \<open>clearInterval\<close> and \<open>clearTimeout\<close> are the same in both.
\<close>

definition heartbeatInterval_p0 :: nat where
  "heartbeatInterval_p0 = 3000"

definition emitUpdate_p0 :: "Board \<Rightarrow> outcome" where
  "emitUpdate_p0 b =
     (case firmataBoard b of None \<Rightarrow> Raised TypeError b
      | Some fb \<Rightarrow> Done (b\<lparr>firmataBoard := Some (firmata_call Emit_update_p0 fb)\<rparr>))"

definition compareAnalogReadout_p0 :: "nat \<Rightarrow> int \<Rightarrow> Board \<Rightarrow> outcome" where
  "compareAnalogReadout_p0 pinIndex val b =
     (if previousAnalogValue b pinIndex \<noteq> Some val
      then emitUpdate_p0 (b\<lparr>previousAnalogValue := (previousAnalogValue b)(pinIndex := Some val)\<rparr>)
      else Done b)"

definition attachAnalogPinListeners_p0 :: "Board \<Rightarrow> Board" where
  "attachAnalogPinListeners_p0 b =
     with_firmata
       (\<lambda>fb. fold (\<lambda>index fb1. analogRead index (L_compareAnalogReadout_p0 (analogPins fb ! index)) fb1)
                  [0..<length (analogPins fb)] fb) b"

definition heartbeat_deadline_p0 :: "Timeout \<Rightarrow> Timeout \<Rightarrow> Board \<Rightarrow> outcome" where
  "heartbeat_deadline_p0 heartbeat deadline b =
     (let b1 = log_entry Warn_heartbeat_timeout b
      in case firmataBoard b1 of None \<Rightarrow> Raised TypeError b1
         | Some fb \<Rightarrow>
             Done (clearTimeout (Some deadline)
                    (clearInterval (Some heartbeat)
                      (b1\<lparr>firmataBoard := Some (firmata_call Emit_disconnect fb)\<rparr>))))"

definition heartbeat_tick_p0 :: "Timeout \<Rightarrow> Board \<Rightarrow> outcome" where
  "heartbeat_tick_p0 heartbeat b =
     (let (t, b1) = setTimeout (\<lambda>t. HeartbeatDeadline_p0 heartbeat t) 2000 b;
          b2 = b1\<lparr>timeouts := timeouts b1 @ [t]\<rparr>
      in case firmataBoard b2 of None \<Rightarrow> Raised TypeError b2
         | Some fb \<Rightarrow> Done (b2\<lparr>firmataBoard := Some (queryFirmware (L_clearTimeout_p0 t) fb)\<rparr>))"

definition startHeartbeat_p0 :: "Board \<Rightarrow> Board" where
  "startHeartbeat_p0 b =
     (let (heartbeat, b1) = setInterval HeartbeatTick_p0 heartbeatInterval_p0 b
      in b1\<lparr>intervals := intervals b1 @ [heartbeat]\<rparr>)"

section \<open>Timers firing and events arriving\<close>

definition run_timer_callback :: "timer_callback \<Rightarrow> Board \<Rightarrow> outcome" where
  "run_timer_callback c b =
     (case c of
        ToggleLED \<Rightarrow> toggleLED b
      | HeartbeatTick h \<Rightarrow> heartbeat_tick h b
      | HeartbeatDeadline h \<Rightarrow> heartbeat_deadline h b
      | HeartbeatTick_p0 h \<Rightarrow> heartbeat_tick_p0 h b
      | HeartbeatDeadline_p0 h t \<Rightarrow> heartbeat_deadline_p0 h t b)"

text \<open>
  The runtime fires a timer only while it is in the table; a timer set with \<open>setTimeout\<close>
  leaves the table when it fires.
\<close>

definition fire_timer :: "Timeout \<Rightarrow> Board \<Rightarrow> outcome" where
  "fire_timer h b =
     (case map_of (rt_timers b) h of None \<Rightarrow> Done b
      | Some t \<Rightarrow>
          run_timer_callback (callback t)
            (if kind t = Once then b\<lparr>rt_timers := filter (\<lambda>e. fst e \<noteq> h) (rt_timers b)\<rparr> else b))"

definition run_listener :: "listener \<Rightarrow> int \<Rightarrow> Board \<Rightarrow> outcome" where
  "run_listener l v b =
     (case l of
        L_emitUpdate \<Rightarrow> emitUpdate b
      | L_resetHeartbeatTimeout \<Rightarrow> Done (resetHeartbeatTimeout b)
      | L_compareAnalogReadout_p0 pin \<Rightarrow> compareAnalogReadout_p0 pin v b
      | L_clearTimeout_p0 t \<Rightarrow> Done (clearTimeout (Some t) b))"

fun run_listeners :: "listener list \<Rightarrow> int \<Rightarrow> Board \<Rightarrow> outcome" where
  "run_listeners [] v b = Done b"
| "run_listeners (l # ls) v b =
     (case run_listener l v b of Raised e b1 \<Rightarrow> Raised e b1
      | Done b1 \<Rightarrow> run_listeners ls v b1)"

text \<open>
  The library emits the event \<open>k\<close> with the value \<open>v\<close>: the listeners registered for \<open>k\<close>
  run in the order of registration, and those registered once are taken away.
\<close>

definition deliver :: "event_key \<Rightarrow> int \<Rightarrow> Board \<Rightarrow> outcome" where
  "deliver k v b =
     (case firmataBoard b of None \<Rightarrow> Done b
      | Some fb \<Rightarrow>
          run_listeners (map handler (filter (\<lambda>e. on_event e = k) (listeners fb))) v
            (b\<lparr>firmataBoard :=
                 Some (fb\<lparr>listeners := filter (\<lambda>e. \<not> (on_event e = k \<and> once e)) (listeners fb)\<rparr>)\<rparr>))"

definition updates :: "Board \<Rightarrow> nat" where
  "updates b =
     (case firmataBoard b of None \<Rightarrow> 0
      | Some fb \<Rightarrow> length (filter (\<lambda>c. case c of Emit_update _ \<Rightarrow> True | Emit_update_p0 \<Rightarrow> True | _ \<Rightarrow> False)
                            (calls fb)))"

definition state_of :: "outcome \<Rightarrow> Board" where
  "state_of r = (case r of Done b \<Rightarrow> b | Raised e b \<Rightarrow> b)"

section \<open>The board service (src/service/board-service.ts)\<close>

text \<open>
  \<open>connectToBoard\<close> creates the Firmata board on the port, sets the connection timeout and
  registers four listeners. Its local variable \<open>board\<close> is \<open>undefined\<close> until a firmware
  report arrives. What the listeners do to the data model and to the two callbacks is
  recorded in order. \<open>link_open\<close> is the transport under the Firmata board, opened by its
  constructor. The identifier that \<open>connectToBoard\<close> derives from the port is a parameter
  here, and both callbacks are taken to be given.
\<close>

datatype board_var = Undefined | Null | BoardObject string string

datatype callback_argument = CbFalse | CbBoard board_var

datatype service_effect =
    Logger_warn_timeout
  | Firmata_removeAllListeners
  | Construct string string
  | Model_addBoard board_var
  | Model_removeBoard board_var
  | BoardConnectedCallback callback_argument
  | BoardDisconnectedCallback

datatype service_listener = On_queryfirmware | On_ready | On_disconnect | On_close | Of_board

datatype service_event = Ev_timeout | Ev_queryfirmware string | Ev_ready | Ev_disconnect | Ev_close

record connection =
  board :: board_var
  ident :: string
  fb_listeners :: "service_listener list"
  connectionTimeout :: "nat option"
  effects :: "service_effect list"
  link_open :: bool

definition effect :: "service_effect \<Rightarrow> connection \<Rightarrow> connection" where
  "effect e c = c\<lparr>effects := effects c @ [e]\<rparr>"

definition connectToBoard :: "string \<Rightarrow> connection" where
  "connectToBoard i =
     \<lparr>board = Undefined, ident = i,
      fb_listeners = [On_queryfirmware, On_ready, On_disconnect, On_close],
      connectionTimeout = Some 10000, effects = [], link_open = True\<rparr>"

text \<open>The body of the connection timeout.\<close>

definition on_timeout :: "connection \<Rightarrow> connection" where
  "on_timeout c =
     effect (BoardConnectedCallback CbFalse)
       (effect Firmata_removeAllListeners
         ((effect Logger_warn_timeout c)\<lparr>board := Null, fb_listeners := []\<rparr>))"

text \<open>\<open>name.replace('.ino', '')\<close>: the first occurrence is taken out.\<close>

fun replace_ino :: "string \<Rightarrow> string" where
  "replace_ino [] = []"
| "replace_ino (c # cs) =
     (if take 4 (c # cs) = ''.ino'' then drop 4 (c # cs) else c # replace_ino cs)"

text \<open>
  The listener of \<open>queryfirmware\<close> constructs the board object, which attaches listeners
  of its own to the same Firmata board (\<open>Of_board\<close>).
\<close>

definition on_queryfirmware :: "string \<Rightarrow> connection \<Rightarrow> connection" where
  "on_queryfirmware firmware_name c =
     (let ty = replace_ino firmware_name;
          cls = (if ty = ''MajorTom'' then ''MajorTom'' else ''Board'')
      in (effect (Construct cls (ident c)) c)
           \<lparr>board := BoardObject cls (ident c), fb_listeners := fb_listeners c @ [Of_board]\<rparr>)"

definition on_ready :: "connection \<Rightarrow> connection" where
  "on_ready c =
     (effect (BoardConnectedCallback (CbBoard (board c)))
       (effect (Model_addBoard (board c)) c))\<lparr>connectionTimeout := None\<rparr>"

definition on_disconnect :: "connection \<Rightarrow> connection" where
  "on_disconnect c = effect BoardDisconnectedCallback (effect (Model_removeBoard (board c)) c)"

definition on_close :: "connection \<Rightarrow> connection" where
  "on_close c = effect BoardDisconnectedCallback (effect (Model_removeBoard (board c)) c)"

text \<open>
  One step of the connection: the timeout fires if it is still set, an event of the
  Firmata board runs its listener if that is still registered.
\<close>

definition service_step :: "connection \<Rightarrow> service_event \<Rightarrow> connection" where
  "service_step c e =
     (case e of
        Ev_timeout \<Rightarrow>
          (if connectionTimeout c = None then c else on_timeout (c\<lparr>connectionTimeout := None\<rparr>))
      | Ev_queryfirmware n \<Rightarrow>
          (if On_queryfirmware \<in> set (fb_listeners c) then on_queryfirmware n c else c)
      | Ev_ready \<Rightarrow> (if On_ready \<in> set (fb_listeners c) then on_ready c else c)
      | Ev_disconnect \<Rightarrow> (if On_disconnect \<in> set (fb_listeners c) then on_disconnect c else c)
      | Ev_close \<Rightarrow> (if On_close \<in> set (fb_listeners c) then on_close c else c))"

definition service_run :: "connection \<Rightarrow> service_event list \<Rightarrow> connection" where
  "service_run c es = foldl service_step c es"

definition added_to_roster :: "connection \<Rightarrow> bool" where
  "added_to_roster c = (\<exists>x \<in> set (effects c). case x of Model_addBoard _ \<Rightarrow> True | _ \<Rightarrow> False)"

section \<open>Reading outcomes, and a small board to run the methods on\<close>

definition raised :: "outcome \<Rightarrow> error option" where
  "raised r = (case r of Done b \<Rightarrow> None | Raised e b \<Rightarrow> Some e)"

definition is_CommandMalformed :: "error \<Rightarrow> bool" where
  "is_CommandMalformed e = (case e of CommandMalformed m \<Rightarrow> True | _ \<Rightarrow> False)"

definition calls_of :: "Board \<Rightarrow> firmata_call list" where
  "calls_of b = (case firmataBoard b of None \<Rightarrow> [] | Some fb \<Rightarrow> calls fb)"

definition listeners_of :: "Board \<Rightarrow> listener_entry list" where
  "listeners_of b = (case firmataBoard b of None \<Rightarrow> [] | Some fb \<Rightarrow> listeners fb)"

text \<open>
  A device with four pins: two without any mode, the digital pin 2 (the default
  \<open>pinout.LED\<close>) and the analog pin 3 on channel 0.
\<close>

definition no_pin :: Pins where
  "no_pin = \<lparr>supportedModes = [], analogChannel = 127, pin_value = Num 0\<rparr>"

definition digital_pin :: Pins where
  "digital_pin = \<lparr>supportedModes = [INPUT, OUTPUT], analogChannel = 127, pin_value = Num 0\<rparr>"

definition analog_pin :: Pins where
  "analog_pin = \<lparr>supportedModes = [INPUT, OUTPUT, ANALOG], analogChannel = 0, pin_value = Num 0\<rparr>"

definition sample_firmata :: FirmataBoard where
  "sample_firmata =
     \<lparr>pins = [no_pin, no_pin, digital_pin, analog_pin], analogPins = [3], listeners = [], calls = []\<rparr>"

definition sample_board :: Board where
  "sample_board = new_Board ''desk'' ''Board'' (Some sample_firmata) ''b1''"

text \<open>The same device attached to a board on which no method has run yet.\<close>

definition attached_board :: Board where
  "attached_board =
     (initial_Board ''b1'' ''desk'' ''Board'')\<lparr>online := True, firmataBoard := Some sample_firmata\<rparr>"

text \<open>The state of a connection after its timeout has run.\<close>

definition timed_out :: "connection \<Rightarrow> bool" where
  "timed_out c = (connectionTimeout c = None \<and> fb_listeners c = []
                  \<and> BoardConnectedCallback CbFalse \<in> set (effects c))"

section \<open>Arrays: indexOf and splice\<close>

lemma indexOf_notin: "x \<notin> set xs \<Longrightarrow> indexOf xs x = - 1"
  by (induction xs) auto

lemma indexOf_range: "x \<in> set xs \<Longrightarrow> 0 \<le> indexOf xs x \<and> indexOf xs x < int (length xs)"
  by (induction xs) (auto simp: Let_def)

lemma indexOf_map_Some: "indexOf (map Some xs) (Some x) = indexOf xs x"
  by (induction xs) auto

lemma indexOf_map_Some_None: "indexOf (map Some xs) None = - 1"
  by (induction xs) auto

lemma splice_minus_one: "splice xs (- 1) (Suc 0) = butlast xs"
  by (cases xs rule: rev_cases) (auto simp: splice_def Let_def)

lemma splice_indexOf: "x \<in> set xs \<Longrightarrow> splice xs (indexOf xs x) (Suc 0) = remove1 x xs"
proof (induction xs)
  case Nil
  then show ?case by simp
next
  case (Cons y ys)
  show ?case
  proof (cases "y = x")
    case True
    then show ?thesis by (simp add: splice_def)
  next
    case False
    with Cons.prems have mem: "x \<in> set ys" by simp
    from indexOf_range [OF mem]
    have r: "0 \<le> indexOf ys x" "indexOf ys x < int (length ys)" by auto
    from Cons.IH [OF mem] r
    have "take (nat (indexOf ys x)) ys @ drop (Suc (nat (indexOf ys x))) ys = remove1 x ys"
      by (simp add: splice_def Let_def min_def split: if_splits)
    moreover from r have "Suc 0 \<le> length ys - nat (indexOf ys x)" by linarith
    ultimately show ?thesis using False r
      by (simp add: splice_def Let_def min_def nat_add_distrib split: if_splits)
  qed
qed

section \<open>Cancelling one timer\<close>

text \<open>
  What \<open>clearInterval\<close> and \<open>clearTimeout\<close> do to the tracked lists: a tracked handle is
  taken out; for a handle that is not in the list, \<open>indexOf\<close> gives \<open>-1\<close> and
  \<open>splice(-1, 1)\<close> takes out the last tracked handle instead.
\<close>

lemma clearInterval_tracked:
  "t \<in> set (intervals b) \<Longrightarrow> intervals (clearInterval (Some t) b) = remove1 t (intervals b)"
  by (simp add: clearInterval_def global_clear_def indexOf_map_Some splice_indexOf)

lemma clearInterval_untracked:
  "t \<notin> set (intervals b) \<Longrightarrow> intervals (clearInterval (Some t) b) = butlast (intervals b)"
  by (simp add: clearInterval_def global_clear_def indexOf_map_Some indexOf_notin splice_minus_one)

lemma clearInterval_null: "intervals (clearInterval None b) = butlast (intervals b)"
  by (simp add: clearInterval_def global_clear_def indexOf_map_Some_None splice_minus_one)

lemma clearTimeout_tracked:
  "t \<in> set (timeouts b) \<Longrightarrow> timeouts (clearTimeout (Some t) b) = remove1 t (timeouts b)"
  by (simp add: clearTimeout_def global_clear_def indexOf_map_Some splice_indexOf)

lemma clearTimeout_untracked:
  "t \<notin> set (timeouts b) \<Longrightarrow> timeouts (clearTimeout (Some t) b) = butlast (timeouts b)"
  by (simp add: clearTimeout_def global_clear_def indexOf_map_Some indexOf_notin splice_minus_one)

text \<open>
  C8. Cancelling a timer that the session does not track should leave the tracked lists as
  they are. On the code it does not: with the handles 4 and 5 tracked, cancelling the
  untracked handle 7 leaves only 4; cancelling 4 twice leaves nothing, the second call
  taking 5 with it; and the same for the list of timeouts.
\<close>

theorem clearInterval_untracked_drops_last:
  "intervals (clearInterval (Some 7) ((initial_Board ''b1'' ''desk'' ''Board'')\<lparr>intervals := [4, 5]\<rparr>)) = [4]
   \<and> intervals (clearInterval (Some 4) (clearInterval (Some 4)
        ((initial_Board ''b1'' ''desk'' ''Board'')\<lparr>intervals := [4, 5]\<rparr>))) = []
   \<and> timeouts (clearTimeout (Some 7) ((initial_Board ''b1'' ''desk'' ''Board'')\<lparr>timeouts := [4, 5]\<rparr>)) = [4]"
  by (simp add: clearInterval_def clearTimeout_def global_clear_def splice_def initial_Board_def)

section \<open>Releasing everything at disconnect\<close>

lemma fold_global_clear:
  "fold (\<lambda>h. global_clear (Some h)) hs b
     = b\<lparr>rt_timers := filter (\<lambda>e. fst e \<notin> set hs) (rt_timers b)\<rparr>"
proof (induction hs arbitrary: b)
  case Nil
  then show ?case by simp
next
  case (Cons h hs)
  have "filter (\<lambda>e. fst e \<notin> set hs) (filter (\<lambda>e. fst e \<noteq> h) (rt_timers b))
          = filter (\<lambda>e. fst e \<notin> set (h # hs)) (rt_timers b)"
    by (induction "rt_timers b") (auto intro: filter_cong)
  with Cons show ?case by (simp add: global_clear_def)
qed

lemma clearAllIntervals_eq:
  "clearAllIntervals b
     = b\<lparr>rt_timers := filter (\<lambda>e. fst e \<notin> set (intervals b)) (rt_timers b), intervals := []\<rparr>"
  by (simp add: clearAllIntervals_def fold_global_clear)

lemma clearAllTimeouts_eq:
  "clearAllTimeouts b
     = b\<lparr>rt_timers := filter (\<lambda>e. fst e \<notin> set (timeouts b)) (rt_timers b), timeouts := []\<rparr>"
  by (simp add: clearAllTimeouts_def fold_global_clear)

lemma clearListeners_Done:
  "firmataBoard b = Some fb \<Longrightarrow>
     \<exists>fb1. clearListeners b = Done (b\<lparr>firmataBoard := Some fb1\<rparr>)"
  by (auto simp: clearListeners_def Let_def)

lemma disconnect_tracked:
  assumes fb: "firmataBoard b = Some fb"
  shows "\<exists>d. disconnect b = Done d
           \<and> rt_timers d = filter (\<lambda>e. fst e \<notin> set (intervals b) \<union> set (timeouts b)) (rt_timers b)
           \<and> intervals d = [] \<and> timeouts d = [] \<and> listeners_of d = [] \<and> online d = False"
proof -
  let ?b1 = "clearAllTimeouts (clearAllIntervals b)"
  have fb1: "firmataBoard ?b1 = Some fb"
    using fb by (simp add: clearAllIntervals_eq clearAllTimeouts_eq)
  from clearListeners_Done [OF fb1] obtain fb2
    where cl: "clearListeners ?b1 = Done (?b1\<lparr>firmataBoard := Some fb2\<rparr>)" by blast
  have "filter (\<lambda>e. fst e \<notin> set (timeouts b)) (filter (\<lambda>e. fst e \<notin> set (intervals b)) (rt_timers b))
          = filter (\<lambda>e. fst e \<notin> set (intervals b) \<union> set (timeouts b)) (rt_timers b)"
    by (induction "rt_timers b") (auto intro: filter_cong)
  then show ?thesis
    using cl
    by (simp add: disconnect_def clearAllTimers_def Let_def removeAllListeners_def
        listeners_of_def clearAllIntervals_eq clearAllTimeouts_eq)
qed

lemma disconnect_releases_tracked:
  assumes "firmataBoard b = Some fb"
    and "fst ` set (rt_timers b) \<subseteq> set (intervals b) \<union> set (timeouts b)"
  shows "\<exists>d. disconnect b = Done d \<and> rt_timers d = [] \<and> intervals d = [] \<and> timeouts d = []
           \<and> listeners_of d = [] \<and> online d = False"
proof -
  from assms(2) have "filter (\<lambda>e. fst e \<notin> set (intervals b) \<union> set (timeouts b)) (rt_timers b) = []"
    by (auto simp: filter_empty_conv)
  with disconnect_tracked [OF assms(1)] show ?thesis by auto
qed

text \<open>
  C3. After \<open>disconnect()\<close> no timer of the session should be left to fire. The lemma
  above gives this for the timers that are still in the tracked lists. On the board below
  it fails: \<open>BLINKOFF\<close> with no blinking in progress calls \<open>clearInterval(undefined)\<close>,
  which takes the heartbeat interval out of the tracked list without clearing it; the
  \<open>disconnect()\<close> that follows returns, leaves that interval live, and when it fires
  the session queries the device again.
\<close>

theorem disconnect_after_BLINKOFF_leaves_heartbeat_live:
  "intervals sample_board = [0]
   \<and> live sample_board 0
   \<and> intervals (state_of (executeAction ''BLINKOFF'' None sample_board)) = []
   \<and> raised (disconnect (state_of (executeAction ''BLINKOFF'' None sample_board))) = None
   \<and> live (state_of (disconnect (state_of (executeAction ''BLINKOFF'' None sample_board)))) 0
   \<and> last (calls_of (state_of (fire_timer 0
        (state_of (disconnect (state_of (executeAction ''BLINKOFF'' None sample_board))))))) = QueryFirmware"
  by code_simp

section \<open>Pin listeners and updates\<close>



lemma updates_emitUpdate:
  "firmataBoard b = Some fb \<Longrightarrow>
     \<exists>b1. emitUpdate b = Done b1 \<and> updates b1 = updates b + 1"
  by (simp add: emitUpdate_def updates_def firmata_call_def)

lemma updates_emitUpdate_p0:
  "firmataBoard b = Some fb \<Longrightarrow>
     \<exists>b1. emitUpdate_p0 b = Done b1 \<and> updates b1 = updates b + 1 
        \<and> previousAnalogValue b1 = previousAnalogValue b"
  by (simp add: emitUpdate_p0_def updates_def firmata_call_def)

text \<open>The earlier revision: the analog callback emits on a change only, and stores the reading.\<close>

lemma compareAnalogReadout_p0_change_only:
  assumes "firmataBoard b = Some fb"
  shows "(previousAnalogValue b pin = Some v \<longrightarrow> run_listener (L_compareAnalogReadout_p0 pin) v b = Done b)
       \<and> (previousAnalogValue b pin \<noteq> Some v \<longrightarrow>
            (\<exists>b1. run_listener (L_compareAnalogReadout_p0 pin) v b = Done b1
                  \<and> updates b1 = updates b + 1 \<and> previousAnalogValue b1 pin = Some v))"
proof -
  let ?b = "b\<lparr>previousAnalogValue := (previousAnalogValue b)(pin := Some v)\<rparr>"
  have "firmataBoard ?b = Some fb" using assms by simp
  from updates_emitUpdate_p0 [OF this] obtain b1 where
    "emitUpdate_p0 ?b = Done b1" "updates b1 = updates ?b + 1"
    "previousAnalogValue b1 = previousAnalogValue ?b" by blast
  moreover have "updates ?b = updates b" by (simp add: updates_def)
  ultimately show ?thesis
    by (simp add: run_listener_def compareAnalogReadout_p0_def)
qed

lemma attachAnalogPinListeners_p0_sample:
  "listeners_of (attachAnalogPinListeners_p0 ((initial_Board ''b1'' ''desk'' ''Board'')\<lparr>firmataBoard := Some sample_firmata\<rparr>))
     = [\<lparr>on_event = Analog_read 0, handler = L_compareAnalogReadout_p0 3, once = False\<rparr>]"
  by code_simp

text \<open>Digital callbacks, and the analog callbacks of board.ts, emit on every call.\<close>

lemma emitUpdate_listener_always:
  "firmataBoard b = Some fb \<Longrightarrow>
     \<exists>b1. run_listener L_emitUpdate v b = Done b1 \<and> updates b1 = updates b + 1"
  using updates_emitUpdate [of b fb] by (simp add: run_listener_def)

text \<open>
  C1. An analog reading equal to the previous one should emit no \<open>update\<close>. In board.ts
  the constructor registers \<open>emitUpdate\<close> itself as the analog listener, and
  \<open>compareAnalogReadout\<close> is never called: two identical readings of 512 on analog
  channel 0 emit two updates.
\<close>

theorem analog_listener_emits_on_identical_readings:
  "listeners_of sample_board
     = [\<lparr>on_event = Analog_read 0, handler = L_emitUpdate, once = False\<rparr>,
        \<lparr>on_event = Digital_read 2, handler = L_emitUpdate, once = False\<rparr>]
   \<and> updates (state_of (deliver (Analog_read 0) 512 sample_board)) = updates sample_board + 1
   \<and> updates (state_of (deliver (Analog_read 0) 512 (state_of (deliver (Analog_read 0) 512 sample_board))))
       = updates sample_board + 2"
  by code_simp

section \<open>SETPINVALUE and its parameters\<close>

lemma emitUpdate_Raised: "emitUpdate b = Raised e b1 \<Longrightarrow> e = TypeError"
  by (auto simp: emitUpdate_def split: option.splits)

lemma emitUpdate_raises: "raised (emitUpdate b) = Some e \<Longrightarrow> e = TypeError"
  by (auto simp: raised_def dest: emitUpdate_Raised split: outcome.splits)

lemma setPinValue_number_raises:
  "raised (setPinValue (Some p) (Some v) b) = Some e \<Longrightarrow> e = TypeError"
  by (auto simp: setPinValue_def raised_def dest: emitUpdate_Raised
      split: option.splits bool.splits if_splits outcome.splits)

lemma SETPINVALUE_never_malformed:
  assumes "map_of (availableActions b) a = Some SETPINVALUE"
    and "raised (executeAction a ps b) = Some e"
  shows "\<not> is_CommandMalformed e"
proof -
  let ?b1 = "log_entry (Debug_executing a) b"
  let ?r = "run_action SETPINVALUE (case ps of None \<Rightarrow> [] | Some ps \<Rightarrow> ps) ?b1"
  have av: "map_of (availableActions ?b1) a = Some SETPINVALUE"
    using assms(1) by (simp add: log_entry_def)
  show ?thesis
  proof (cases "isAvailableAction b a")
    case False
    with assms(2) show ?thesis by (auto simp: executeAction_def raised_def is_CommandMalformed_def)
  next
    case True
    show ?thesis
    proof (cases ?r)
      case (Done b2)
      with True av assms(2) have "raised (emitUpdate b2) = Some e"
        by (simp add: executeAction_def Let_def)
      then show ?thesis by (auto dest: emitUpdate_raises simp: is_CommandMalformed_def)
    next
      case (Raised e2 b2)
      with True av assms(2) have "e2 = e" by (simp add: executeAction_def Let_def raised_def)
      moreover from Raised have "raised ?r = Some e2" by (simp add: raised_def)
      then have "e2 = TypeError"
        unfolding run_action_def by (auto dest: setPinValue_number_raises)
      ultimately show ?thesis by (simp add: is_CommandMalformed_def)
    qed
  qed
qed

text \<open>
  C5. A missing or unparseable parameter of \<open>SETPINVALUE\<close> should fail with
  CommandMalformed. \<open>parseInt\<close> turns such a parameter into \<open>NaN\<close>, never into
  \<open>null\<close>, so the two tests of \<open>setPinValue\<close> do not see it: with the value missing
  the action completes, logs the warning for the digital pin and emits two updates; with
  the pin unparseable or with no parameter at all it fails with a TypeError.
\<close>

theorem SETPINVALUE_missing_parameter_not_malformed:
  "raised (executeAction ''SETPINVALUE'' (Some [''2'']) sample_board) = None
   \<and> logged (state_of (executeAction ''SETPINVALUE'' (Some [''2'']) sample_board))
       = [Debug_executing ''SETPINVALUE'', Warn_digital_value NaN (Num 2)]
   \<and> updates (state_of (executeAction ''SETPINVALUE'' (Some [''2'']) sample_board)) = 2
   \<and> raised (executeAction ''SETPINVALUE'' (Some [''x'', ''1'']) sample_board) = Some TypeError
   \<and> raised (executeAction ''SETPINVALUE'' None sample_board) = Some TypeError"
  by code_simp

section \<open>Dispatch by name\<close>

lemma indexOf_member: "(0 \<le> indexOf xs x) = (x \<in> set xs)"
  by (induction xs) (auto simp: Let_def)

lemma isAvailableAction_iff: "isAvailableAction b a = (a \<in> set (getAvailableActions b))"
  by (simp add: isAvailableAction_def indexOf_member)

text \<open>
  C4. A name that is not a key of the action table makes \<open>executeAction\<close> throw
  CommandUnavailable before anything else is done: the state at the throw is the state
  before the call, with nothing logged, no timer touched and no call made to the device.
  A name that is a key runs the function stored under it, on the parameters, and then
  emits the update.
\<close>

theorem executeAction_table:
  "(a \<notin> set (getAvailableActions b) \<longrightarrow>
      executeAction a ps b = Raised (CommandUnavailable a (board_id b)) b)
   \<and> (a \<in> set (getAvailableActions b) \<longrightarrow>
        (\<exists>f. map_of (availableActions b) a = Some f
           \<and> executeAction a ps b =
               (case run_action f (case ps of None \<Rightarrow> [] | Some xs \<Rightarrow> xs)
                       (log_entry (Debug_executing a) b) of
                  Raised e b2 \<Rightarrow> Raised e b2
                | Done b2 \<Rightarrow> emitUpdate b2)))"
proof (intro conjI impI)
  assume "a \<notin> set (getAvailableActions b)"
  then show "executeAction a ps b = Raised (CommandUnavailable a (board_id b)) b"
    by (simp add: executeAction_def isAvailableAction_iff)
next
  assume mem: "a \<in> set (getAvailableActions b)"
  then have "a \<in> fst ` set (availableActions b)" by (simp add: getAvailableActions_def)
  then obtain f where f: "map_of (availableActions b) a = Some f"
    by (metis domD dom_map_of_conv_image_fst)
  then have "map_of (availableActions (log_entry (Debug_executing a) b)) a = Some f"
    by (simp add: log_entry_def)
  with mem f show "\<exists>f. map_of (availableActions b) a = Some f
           \<and> executeAction a ps b =
               (case run_action f (case ps of None \<Rightarrow> [] | Some xs \<Rightarrow> xs)
                       (log_entry (Debug_executing a) b) of
                  Raised e b2 \<Rightarrow> Raised e b2
                | Done b2 \<Rightarrow> emitUpdate b2)"
    by (simp add: executeAction_def isAvailableAction_iff Let_def)
qed

theorem executeAction_table_witness:
  "''FLY'' \<notin> set (getAvailableActions sample_board)
   \<and> executeAction ''FLY'' (Some [''1'']) sample_board
       = Raised (CommandUnavailable ''FLY'' (board_id sample_board)) sample_board
   \<and> ''BLINKON'' \<in> set (getAvailableActions sample_board)
   \<and> (\<exists>f. map_of (availableActions sample_board) ''BLINKON'' = Some f
         \<and> executeAction ''BLINKON'' None sample_board =
               (case run_action f [] (log_entry (Debug_executing ''BLINKON'') sample_board) of
                  Raised e b2 \<Rightarrow> Raised e b2
                | Done b2 \<Rightarrow> emitUpdate b2))"
proof -
  have h1: "''FLY'' \<notin> set (getAvailableActions sample_board)" by code_simp
  have h2: "''BLINKON'' \<in> set (getAvailableActions sample_board)" by code_simp
  from executeAction_table [of "''FLY''" sample_board "Some [''1'']"] h1
  have "executeAction ''FLY'' (Some [''1'']) sample_board
       = Raised (CommandUnavailable ''FLY'' (board_id sample_board)) sample_board" by blast
  moreover from executeAction_table [of "''BLINKON''" sample_board None] h2
  have "\<exists>f. map_of (availableActions sample_board) ''BLINKON'' = Some f
         \<and> executeAction ''BLINKON'' None sample_board =
               (case run_action f [] (log_entry (Debug_executing ''BLINKON'') sample_board) of
                  Raised e b2 \<Rightarrow> Raised e b2
                | Done b2 \<Rightarrow> emitUpdate b2)" by simp
  ultimately show ?thesis using h1 h2 by blast
qed

section \<open>Writing to a digital pin\<close>



section \<open>The discrete snapshot\<close>

lemma map_enumerate:
  "map (\<lambda>(i, p). f i p) (enumerate 0 ps) = map (\<lambda>i. f i (ps ! i)) [0..<length ps]"
  by (auto intro!: nth_equalityI simp: nth_enumerate_eq)

text \<open>
  C10. For a board with a Firmata board attached, the snapshot's \<open>pins\<close> are the pins
  with a non-empty \<open>supportedModes\<close>, in order, each with its index as \<open>pinNumber\<close> and
  with \<open>analog\<close> true exactly when its \<open>analogChannel\<close> is not 127; \<open>commands\<close> are the
  keys of the action table.
\<close>

theorem toDiscrete_pins_and_commands:
  assumes "firmataBoard b = Some fb"
  shows "d_commands (toDiscrete b) = map fst (availableActions b)
     \<and> d_pins (toDiscrete b) =
         Some (map (\<lambda>i. \<lparr>supportedModes = supportedModes (pins fb ! i),
                          analogChannel = analogChannel (pins fb ! i),
                          pin_value = pin_value (pins fb ! i),
                          pinNumber = i,
                          analog = (analogChannel (pins fb ! i) \<noteq> 127)\<rparr>)
                 (filter (\<lambda>i. supportedModes (pins fb ! i) \<noteq> []) [0..<length (pins fb)]))"
  using assms
  by (simp add: toDiscrete_def getAvailableActions_def discretePins_def map_enumerate
      filter_map comp_def toIPin_def)

theorem toDiscrete_pins_and_commands_witness:
  "firmataBoard sample_board \<noteq> None
   \<and> d_commands (toDiscrete sample_board) = [''BLINKON'', ''BLINKOFF'', ''TOGGLELED'', ''SETPINVALUE'']
   \<and> d_pins (toDiscrete sample_board) =
       Some [\<lparr>supportedModes = [INPUT, OUTPUT], analogChannel = 127, pin_value = Num 0,
              pinNumber = 2, analog = False\<rparr>,
             \<lparr>supportedModes = [INPUT, OUTPUT, ANALOG], analogChannel = 0, pin_value = Num 0,
              pinNumber = 3, analog = True\<rparr>]"
proof -
  obtain fb where fb: "firmataBoard sample_board = Some fb"
    and p: "pins fb = [no_pin, no_pin, digital_pin, analog_pin]"
    and a: "availableActions sample_board = defaultActions"
    by (simp add: sample_board_def new_Board_def startHeartbeat_def attachDigitalPinListeners_def
        attachAnalogPinListeners_def with_firmata_def setInterval_def setTimeout_def setTimer_def initial_Board_def
        sample_firmata_def firmata_call_def Let_def digitalRead_def analogRead_def addListener_def
        split: prod.splits)
  have u: "[0..<4] = [0, 1, 2, 3]" by (simp add: upt_rec)
  from toDiscrete_pins_and_commands [OF fb] fb show ?thesis
    by (simp add: p a u defaultActions_def no_pin_def digital_pin_def analog_pin_def)
qed

section \<open>The LED controller's SETCOLOR\<close>






section \<open>The connection timeout\<close>

lemma no_ready_not_added:
  "Ev_ready \<notin> set es \<Longrightarrow> \<not> added_to_roster c \<Longrightarrow> \<not> added_to_roster (service_run c es)"
proof (induction es arbitrary: c)
  case Nil
  then show ?case by (simp add: service_run_def)
next
  case (Cons e es)
  from Cons.prems have "\<not> added_to_roster (service_step c e)"
    by (cases e) (auto simp: service_step_def added_to_roster_def on_timeout_def
        on_queryfirmware_def on_disconnect_def on_close_def effect_def Let_def)
  with Cons.IH [of "service_step c e"] Cons.prems show ?case
    by (simp add: service_run_def)
qed

lemma timed_out_stays: "timed_out c \<Longrightarrow> service_run c es = c"
proof (induction es)
  case Nil
  then show ?case by (simp add: service_run_def)
next
  case (Cons e es)
  from Cons.prems have "service_step c e = c"
    by (cases e) (simp_all add: service_step_def timed_out_def)
  with Cons show ?case by (simp add: service_run_def)
qed

lemma no_ready_pending_or_timed_out:
  "Ev_ready \<notin> set es \<Longrightarrow> connectionTimeout c \<noteq> None \<or> timed_out c \<Longrightarrow>
     connectionTimeout (service_run c es) \<noteq> None \<or> timed_out (service_run c es)"
proof (induction es arbitrary: c)
  case Nil
  then show ?case by (simp add: service_run_def)
next
  case (Cons e es)
  from Cons.prems have "connectionTimeout (service_step c e) \<noteq> None \<or> timed_out (service_step c e)"
    by (cases e) (auto simp: service_step_def timed_out_def on_timeout_def
        on_queryfirmware_def on_disconnect_def on_close_def effect_def Let_def)
  with Cons.IH [of "service_step c e"] Cons.prems show ?case
    by (simp add: service_run_def)
qed

lemma timeout_step_timed_out:
  "connectionTimeout c \<noteq> None \<or> timed_out c \<Longrightarrow> timed_out (service_step c Ev_timeout)"
  by (auto simp: service_step_def timed_out_def on_timeout_def effect_def)

lemma timeout_step_not_added:
  "\<not> added_to_roster c \<Longrightarrow> \<not> added_to_roster (service_step c Ev_timeout)"
  by (auto simp: service_step_def added_to_roster_def on_timeout_def effect_def)

text \<open>
  C7, as amended. \<open>connectToBoard\<close> sets a timeout of 10000 ms. If no \<open>ready\<close> event
  arrives before the timeout runs, then whatever else arrives before or after it: all
  listeners are removed from the Firmata board, the connect callback has been called with
  \<open>false\<close>, and \<open>addBoard\<close> is never called.
\<close>

theorem connection_timeout_releases_listeners:
  assumes "Ev_ready \<notin> set pre"
  shows "connectionTimeout (connectToBoard i) = Some 10000
     \<and> fb_listeners (service_run (connectToBoard i) (pre @ Ev_timeout # post)) = []
     \<and> BoardConnectedCallback CbFalse \<in> set (effects (service_run (connectToBoard i) (pre @ Ev_timeout # post)))
     \<and> \<not> added_to_roster (service_run (connectToBoard i) (pre @ Ev_timeout # post))"
proof -
  let ?c0 = "connectToBoard i"
  let ?c1 = "service_run ?c0 pre"
  let ?c2 = "service_step ?c1 Ev_timeout"
  have t0: "connectionTimeout ?c0 = Some 10000" and a0: "\<not> added_to_roster ?c0"
    by (simp_all add: connectToBoard_def added_to_roster_def)
  from no_ready_pending_or_timed_out [OF assms, of ?c0] t0
  have "connectionTimeout ?c1 \<noteq> None \<or> timed_out ?c1" by simp
  then have to: "timed_out ?c2" by (rule timeout_step_timed_out)
  from no_ready_not_added [OF assms a0] have "\<not> added_to_roster ?c2"
    by (rule timeout_step_not_added)
  moreover have "service_run ?c0 (pre @ Ev_timeout # post) = service_run ?c2 post"
    by (simp add: service_run_def)
  moreover have "service_run ?c2 post = ?c2" using to by (rule timed_out_stays)
  ultimately show ?thesis using to t0 by (simp add: timed_out_def)
qed

theorem connection_timeout_releases_listeners_witness:
  "Ev_ready \<notin> set [Ev_queryfirmware ''Blink.ino'']
   \<and> fb_listeners (service_run (connectToBoard ''COM3'')
        ([Ev_queryfirmware ''Blink.ino''] @ Ev_timeout # [Ev_ready, Ev_close])) = []
   \<and> BoardConnectedCallback CbFalse \<in> set (effects (service_run (connectToBoard ''COM3'')
        ([Ev_queryfirmware ''Blink.ino''] @ Ev_timeout # [Ev_ready, Ev_close])))
   \<and> \<not> added_to_roster (service_run (connectToBoard ''COM3'')
        ([Ev_queryfirmware ''Blink.ino''] @ Ev_timeout # [Ev_ready, Ev_close]))"
proof -
  have h: "Ev_ready \<notin> set [Ev_queryfirmware ''Blink.ino'']" by simp
  from connection_timeout_releases_listeners [OF h, of "''COM3''" "[Ev_ready, Ev_close]"] h
  show ?thesis by blast
qed

text \<open>
  C7 as stated fails: the body of the timeout warns, removes the listeners and calls the
  callback; it does not close the link.
\<close>

theorem connection_timeout_leaves_link_open:
  "link_open (service_run (connectToBoard ''COM3'') [Ev_timeout])
   \<and> effects (service_run (connectToBoard ''COM3'') [Ev_timeout])
       = [Logger_warn_timeout, Firmata_removeAllListeners, BoardConnectedCallback CbFalse]"
  by (simp add: service_run_def service_step_def connectToBoard_def on_timeout_def effect_def)

section \<open>The heartbeat\<close>

lemma not_live_global_clear: "\<not> live (global_clear (Some t) b) t"
  by (auto simp: live_def global_clear_def)

lemma not_live_clearTimeout: "\<not> live (clearTimeout (Some t) b) t"
  by (auto simp: live_def clearTimeout_def global_clear_def)

lemma not_live_clearInterval: "\<not> live (clearInterval (Some t) b) t"
  by (auto simp: live_def clearInterval_def global_clear_def)

lemma live_clearTimeout_mono: "live (clearTimeout t b) h \<Longrightarrow> live b h"
  by (auto simp: live_def clearTimeout_def global_clear_def split: option.splits)

lemma live_clearInterval_mono: "live (clearInterval t b) h \<Longrightarrow> live b h"
  by (auto simp: live_def clearInterval_def global_clear_def split: option.splits)

lemma startHeartbeat_timer:
  "rt_timers (startHeartbeat b)
     = rt_timers b @ [(rt_next b, \<lparr>kind = Interval, delay = 5000, callback = HeartbeatTick (rt_next b)\<rparr>)]
   \<and> intervals (startHeartbeat b) = intervals b @ [rt_next b]"
  by (simp add: startHeartbeat_def setInterval_def setTimeout_def setTimer_def heartbeatInterval_def)

lemma startHeartbeat_p0_timer:
  "rt_timers (startHeartbeat_p0 b)
     = rt_timers b @ [(rt_next b, \<lparr>kind = Interval, delay = 3000, callback = HeartbeatTick_p0 (rt_next b)\<rparr>)]
   \<and> intervals (startHeartbeat_p0 b) = intervals b @ [rt_next b]"
  by (simp add: startHeartbeat_p0_def setInterval_def setTimeout_def setTimer_def heartbeatInterval_p0_def)

lemma heartbeat_tick_arms:
  assumes "firmataBoard b = Some fb"
  shows "\<exists>b1. heartbeat_tick h b = Done b1
     \<and> calls_of b1 = calls_of b @ [QueryFirmware]
     \<and> listeners_of b1 = listeners_of b @ [\<lparr>on_event = Queryfirmware, handler = L_resetHeartbeatTimeout, once = True\<rparr>]
     \<and> rt_timers b1 = rt_timers b @ [(rt_next b, \<lparr>kind = Once, delay = 3000, callback = HeartbeatDeadline h\<rparr>)]
     \<and> timeouts b1 = timeouts b @ [rt_next b]
     \<and> heartbeatTimeout b1 = Some (rt_next b)"
  using assms
  by (simp add: heartbeat_tick_def setInterval_def setTimeout_def setTimer_def Let_def queryFirmware_def addListener_def
      firmata_call_def calls_of_def listeners_of_def)

lemma heartbeat_tick_p0_arms:
  assumes "firmataBoard b = Some fb"
  shows "\<exists>b1. heartbeat_tick_p0 h b = Done b1
     \<and> calls_of b1 = calls_of b @ [QueryFirmware]
     \<and> listeners_of b1 = listeners_of b @ [\<lparr>on_event = Queryfirmware, handler = L_clearTimeout_p0 (rt_next b), once = True\<rparr>]
     \<and> rt_timers b1 = rt_timers b @ [(rt_next b, \<lparr>kind = Once, delay = 2000, callback = HeartbeatDeadline_p0 h (rt_next b)\<rparr>)]
     \<and> timeouts b1 = timeouts b @ [rt_next b]"
  using assms
  by (simp add: heartbeat_tick_p0_def setInterval_def setTimeout_def setTimer_def Let_def queryFirmware_def addListener_def
      firmata_call_def calls_of_def listeners_of_def)

lemma reply_cancels:
  "heartbeatTimeout b = Some t \<Longrightarrow>
     \<exists>b1. run_listener L_resetHeartbeatTimeout v b = Done b1 \<and> \<not> live b1 t \<and> heartbeatTimeout b1 = None"
  by (auto simp: run_listener_def resetHeartbeatTimeout_def live_def clearTimeout_def global_clear_def)

lemma reply_cancels_p0:
  "\<exists>b1. run_listener (L_clearTimeout_p0 t) v b = Done b1 \<and> \<not> live b1 t"
  by (simp add: run_listener_def not_live_clearTimeout)

lemma calls_of_clearTimeout: "calls_of (clearTimeout t b) = calls_of b"
  by (simp add: calls_of_def clearTimeout_def global_clear_def split: option.splits)

lemma calls_of_clearInterval: "calls_of (clearInterval t b) = calls_of b"
  by (simp add: calls_of_def clearInterval_def global_clear_def split: option.splits)

lemma calls_of_resetHeartbeatTimeout: "calls_of (resetHeartbeatTimeout b) = calls_of b"
  by (simp add: calls_of_def resetHeartbeatTimeout_def clearTimeout_def global_clear_def
      split: option.splits)

lemma heartbeat_deadline_expires:
  assumes "firmataBoard b = Some fb"
  shows "\<exists>b1. heartbeat_deadline h b = Done b1
     \<and> calls_of b1 = calls_of b @ [Emit_disconnect] \<and> \<not> live b1 h"
proof -
  let ?b = "(log_entry Debug_heartbeat_timeout b)\<lparr>firmataBoard := Some (firmata_call Emit_disconnect fb)\<rparr>"
  let ?b1 = "resetHeartbeatTimeout (clearInterval (Some h) ?b)"
  have "heartbeat_deadline h b = Done ?b1"
    using assms by (simp add: heartbeat_deadline_def Let_def log_entry_def)
  moreover have "calls_of ?b1 = calls_of b @ [Emit_disconnect]"
    using assms
    by (simp add: calls_of_resetHeartbeatTimeout calls_of_clearInterval)
       (simp add: calls_of_def firmata_call_def)
  moreover have "\<not> live ?b1 h"
  proof
    assume "live ?b1 h"
    then have "live (clearTimeout (heartbeatTimeout (clearInterval (Some h) ?b)) (clearInterval (Some h) ?b)) h"
      by (simp add: resetHeartbeatTimeout_def live_def)
    then have "live (clearInterval (Some h) ?b) h" by (rule live_clearTimeout_mono)
    then show False by (simp add: not_live_clearInterval)
  qed
  ultimately show ?thesis by blast
qed

lemma heartbeat_deadline_p0_expires:
  assumes "firmataBoard b = Some fb"
  shows "\<exists>b1. heartbeat_deadline_p0 h t b = Done b1
     \<and> calls_of b1 = calls_of b @ [Emit_disconnect] \<and> \<not> live b1 h"
proof -
  let ?b = "(log_entry Warn_heartbeat_timeout b)\<lparr>firmataBoard := Some (firmata_call Emit_disconnect fb)\<rparr>"
  let ?b1 = "clearTimeout (Some t) (clearInterval (Some h) ?b)"
  have "heartbeat_deadline_p0 h t b = Done ?b1"
    using assms by (simp add: heartbeat_deadline_p0_def Let_def log_entry_def)
  moreover have "calls_of ?b1 = calls_of b @ [Emit_disconnect]"
    using assms
    by (simp add: calls_of_clearTimeout calls_of_clearInterval)
       (simp add: calls_of_def firmata_call_def)
  moreover have "\<not> live ?b1 h"
    using live_clearTimeout_mono [of "Some t" "clearInterval (Some h) ?b" h]
    by (auto simp: not_live_clearInterval)
  ultimately show ?thesis by blast
qed

lemma map_of_append_fresh: "k \<notin> fst ` set xs \<Longrightarrow> map_of (xs @ [(k, v)]) k = Some v"
  by (induction xs) auto

lemma interval_fires_tick:
  assumes "rt_next b \<notin> fst ` set (rt_timers b)"
  shows "fire_timer (rt_next b) (startHeartbeat b) = heartbeat_tick (rt_next b) (startHeartbeat b)"
  using startHeartbeat_timer [of b] map_of_append_fresh [OF assms]
  by (simp add: fire_timer_def run_timer_callback_def)

lemma interval_fires_tick_p0:
  assumes "rt_next b \<notin> fst ` set (rt_timers b)"
  shows "fire_timer (rt_next b) (startHeartbeat_p0 b) = heartbeat_tick_p0 (rt_next b) (startHeartbeat_p0 b)"
  using startHeartbeat_p0_timer [of b] map_of_append_fresh [OF assms]
  by (simp add: fire_timer_def run_timer_callback_def)

text \<open>
  C2, as amended. \<open>startHeartbeat\<close> sets an interval of period \<open>Board.heartbeatInterval\<close>:
  5000 ms in board.ts, 3000 ms in the earlier revision. Each firing of the interval sends
  one \<open>queryFirmware\<close> request, sets a deadline (of 2000 ms in the earlier revision) and
  registers a callback for the reply; that callback cancels the deadline; the deadline's
  body emits \<open>disconnect\<close> and clears the heartbeat interval.
\<close>

theorem heartbeat_loop:
  assumes "firmataBoard b = Some fb"
  shows "rt_timers (startHeartbeat b)
           = rt_timers b @ [(rt_next b, \<lparr>kind = Interval, delay = 5000, callback = HeartbeatTick (rt_next b)\<rparr>)]
     \<and> rt_timers (startHeartbeat_p0 b)
           = rt_timers b @ [(rt_next b, \<lparr>kind = Interval, delay = 3000, callback = HeartbeatTick_p0 (rt_next b)\<rparr>)]
     \<and> (\<exists>b1 d. heartbeat_tick h b = Done b1
           \<and> calls_of b1 = calls_of b @ [QueryFirmware]
           \<and> rt_timers b1 = rt_timers b @ [(rt_next b, \<lparr>kind = Once, delay = d, callback = HeartbeatDeadline h\<rparr>)]
           \<and> listeners_of b1 = listeners_of b @ [\<lparr>on_event = Queryfirmware, handler = L_resetHeartbeatTimeout, once = True\<rparr>]
           \<and> (\<exists>b2. run_listener L_resetHeartbeatTimeout v b1 = Done b2 \<and> \<not> live b2 (rt_next b)))
     \<and> (\<exists>b1. heartbeat_tick_p0 h b = Done b1
           \<and> calls_of b1 = calls_of b @ [QueryFirmware]
           \<and> rt_timers b1 = rt_timers b @ [(rt_next b, \<lparr>kind = Once, delay = 2000, callback = HeartbeatDeadline_p0 h (rt_next b)\<rparr>)]
           \<and> listeners_of b1 = listeners_of b @ [\<lparr>on_event = Queryfirmware, handler = L_clearTimeout_p0 (rt_next b), once = True\<rparr>]
           \<and> (\<exists>b2. run_listener (L_clearTimeout_p0 (rt_next b)) v b1 = Done b2 \<and> \<not> live b2 (rt_next b)))
     \<and> (\<exists>b1. heartbeat_deadline h b = Done b1
           \<and> calls_of b1 = calls_of b @ [Emit_disconnect] \<and> \<not> live b1 h)
     \<and> (\<exists>b1. heartbeat_deadline_p0 h t b = Done b1
           \<and> calls_of b1 = calls_of b @ [Emit_disconnect] \<and> \<not> live b1 h)
     \<and> (rt_next b \<notin> fst ` set (rt_timers b) \<longrightarrow>
           fire_timer (rt_next b) (startHeartbeat b) = heartbeat_tick (rt_next b) (startHeartbeat b)
         \<and> fire_timer (rt_next b) (startHeartbeat_p0 b) = heartbeat_tick_p0 (rt_next b) (startHeartbeat_p0 b))"
proof -
  from heartbeat_tick_arms [OF assms, of h] obtain b1 where
    b1: "heartbeat_tick h b = Done b1" "calls_of b1 = calls_of b @ [QueryFirmware]"
      "listeners_of b1 = listeners_of b @ [\<lparr>on_event = Queryfirmware, handler = L_resetHeartbeatTimeout, once = True\<rparr>]"
      "rt_timers b1 = rt_timers b @ [(rt_next b, \<lparr>kind = Once, delay = 3000, callback = HeartbeatDeadline h\<rparr>)]"
      "heartbeatTimeout b1 = Some (rt_next b)" by blast
  from reply_cancels [OF b1(5), of v] obtain b2 where
    "run_listener L_resetHeartbeatTimeout v b1 = Done b2" "\<not> live b2 (rt_next b)" by blast
  with b1 have A: "\<exists>b1 d. heartbeat_tick h b = Done b1
           \<and> calls_of b1 = calls_of b @ [QueryFirmware]
           \<and> rt_timers b1 = rt_timers b @ [(rt_next b, \<lparr>kind = Once, delay = d, callback = HeartbeatDeadline h\<rparr>)]
           \<and> listeners_of b1 = listeners_of b @ [\<lparr>on_event = Queryfirmware, handler = L_resetHeartbeatTimeout, once = True\<rparr>]
           \<and> (\<exists>b2. run_listener L_resetHeartbeatTimeout v b1 = Done b2 \<and> \<not> live b2 (rt_next b))"
    by blast
  from heartbeat_tick_p0_arms [OF assms, of h] reply_cancels_p0
  have B: "\<exists>b1. heartbeat_tick_p0 h b = Done b1
           \<and> calls_of b1 = calls_of b @ [QueryFirmware]
           \<and> rt_timers b1 = rt_timers b @ [(rt_next b, \<lparr>kind = Once, delay = 2000, callback = HeartbeatDeadline_p0 h (rt_next b)\<rparr>)]
           \<and> listeners_of b1 = listeners_of b @ [\<lparr>on_event = Queryfirmware, handler = L_clearTimeout_p0 (rt_next b), once = True\<rparr>]
           \<and> (\<exists>b2. run_listener (L_clearTimeout_p0 (rt_next b)) v b1 = Done b2 \<and> \<not> live b2 (rt_next b))"
    by blast
  show ?thesis
    using A B startHeartbeat_timer [of b] startHeartbeat_p0_timer [of b]
      heartbeat_deadline_expires [OF assms, of h] heartbeat_deadline_p0_expires [OF assms, of h t]
      interval_fires_tick [of b] interval_fires_tick_p0 [of b]
    by (intro conjI) simp_all
qed

theorem heartbeat_loop_witness:
  "firmataBoard attached_board \<noteq> None
   \<and> rt_timers (startHeartbeat attached_board)
       = [(0, \<lparr>kind = Interval, delay = 5000, callback = HeartbeatTick 0\<rparr>)]
   \<and> rt_timers (startHeartbeat_p0 attached_board)
       = [(0, \<lparr>kind = Interval, delay = 3000, callback = HeartbeatTick_p0 0\<rparr>)]
   \<and> (\<exists>b1. heartbeat_tick_p0 0 attached_board = Done b1
         \<and> calls_of b1 = [QueryFirmware]
         \<and> rt_timers b1 = [(0, \<lparr>kind = Once, delay = 2000, callback = HeartbeatDeadline_p0 0 0\<rparr>)])
   \<and> (\<exists>b1. heartbeat_deadline 0 attached_board = Done b1
         \<and> calls_of b1 = [Emit_disconnect] \<and> \<not> live b1 0)
   \<and> fire_timer 0 (startHeartbeat attached_board) = heartbeat_tick 0 (startHeartbeat attached_board)"
proof -
  have fb: "firmataBoard attached_board = Some sample_firmata"
    and f: "rt_timers attached_board = []" "rt_next attached_board = 0"
      "calls_of attached_board = []"
    by (simp_all add: attached_board_def initial_Board_def calls_of_def sample_firmata_def)
  from heartbeat_loop [OF fb, of 0 0 0] show ?thesis
    by (simp add: f fb) blast
qed

text \<open>
  C2 as stated fails on board.ts: the heartbeat interval of a new board has a period of
  5000 ms, and the deadline set when it fires is 3000 ms.
\<close>

theorem heartbeat_period_5s_deadline_3s:
  "rt_timers sample_board = [(0, \<lparr>kind = Interval, delay = 5000, callback = HeartbeatTick 0\<rparr>)]
   \<and> rt_timers (state_of (fire_timer 0 sample_board))
       = [(0, \<lparr>kind = Interval, delay = 5000, callback = HeartbeatTick 0\<rparr>),
          (1, \<lparr>kind = Once, delay = 3000, callback = HeartbeatDeadline 0\<rparr>)]
   \<and> last (calls_of (state_of (fire_timer 0 sample_board))) = QueryFirmware"
  by code_simp

end
